theory Spec2Isabelle
  imports Complex_Main "HOL-Library.Word" "HOL-Library.AList"
begin

section \<open>JavaScript values used by the helpers\<close>

text \<open>
  A JavaScript \<open>number\<close>. The drawing helpers do no arithmetic on their operands: they
  test them for truthiness and pass them on, so a finite double is read as the real it
  denotes (\<open>+0\<close> and \<open>-0\<close> are both \<open>Num 0\<close>), next to the three non-finite values.
\<close>

datatype number = Num real | NaN | PosInfinity | NegInfinity

text \<open>\<open>Boolean(n)\<close> for a number: \<open>0\<close>, \<open>-0\<close> and \<open>NaN\<close> are falsy.\<close>

fun truthy :: "number \<Rightarrow> bool" where
  "truthy (Num r) = (r \<noteq> 0)"
| "truthy NaN = False"
| "truthy PosInfinity = True"
| "truthy NegInfinity = True"

text \<open>
  \<open>v || d\<close> where \<open>v\<close> is an optional numeric property (\<open>None\<close> is \<open>undefined\<close>) and
  \<open>d\<close> a number: the left operand if it is truthy, the right one otherwise.
\<close>

definition or_number :: "number option \<Rightarrow> number \<Rightarrow> number" where
  "or_number v d = (case v of None \<Rightarrow> d | Some n \<Rightarrow> if truthy n then n else d)"

text \<open>
  \<open>v || []\<close> where \<open>v\<close> is an optional array: every array, the empty one too, is truthy.
\<close>

definition or_array :: "number list option \<Rightarrow> number list \<Rightarrow> number list" where
  "or_array v d = (case v of None \<Rightarrow> d | Some xs \<Rightarrow> xs)"

text \<open>
  lodash \<open>get(options, 'prop[i]', d)\<close> on an optional array property: the element at
  index \<open>i\<close>, or \<open>d\<close> when the path resolves to \<open>undefined\<close> (the property is absent or
  the index is outside the array).
\<close>

definition get_at :: "number list option \<Rightarrow> nat \<Rightarrow> number \<Rightarrow> number" where
  "get_at arr i d =
     (case arr of None \<Rightarrow> d | Some xs \<Rightarrow> if i < length xs then xs ! i else d)"

text \<open>lodash \<open>isEmpty\<close> on an optional array: \<open>undefined\<close> and \<open>[]\<close> are empty.\<close>

definition isEmpty :: "number list option \<Rightarrow> bool" where
  "isEmpty arr = (case arr of None \<Rightarrow> True | Some xs \<Rightarrow> xs = [])"

section \<open>Content-stream operators of the simple helpers\<close>

text \<open>
  The operator classes (\<open>core/pdf-operators\<close>) are not among the sources. An operator is
  its keyword with its operands; \<open>X.of\<close> and \<open>X.operator\<close> are the constructors.
\<close>

datatype PDFOperator =
    Op_q
  | Op_Q
  | Op_w number
  | Op_re number number number number
  | Op_h
  | Op_S
  | Op_f
  | Op_B
  | Op_n
  | Op_rg number number number
  | Op_RG number number number

definition popGraphicsState :: PDFOperator where
  "popGraphicsState = Op_Q"

definition pushGraphicsState :: PDFOperator where
  "pushGraphicsState = Op_q"

definition lineWidth :: "number \<Rightarrow> PDFOperator" where
  "lineWidth = Op_w"

definition closePath :: PDFOperator where
  "closePath = Op_h"

definition rectangle :: "number \<Rightarrow> number \<Rightarrow> number \<Rightarrow> number \<Rightarrow> PDFOperator" where
  "rectangle = Op_re"

definition square :: "number \<Rightarrow> number \<Rightarrow> number \<Rightarrow> PDFOperator" where
  "square xPos yPos sz = rectangle xPos yPos sz sz"

definition stroke :: PDFOperator where
  "stroke = Op_S"

definition fill :: PDFOperator where
  "fill = Op_f"

definition fillAndStroke :: PDFOperator where
  "fillAndStroke = Op_B"

definition endPath :: PDFOperator where
  "endPath = Op_n"

definition fillingRgbColor :: "number \<Rightarrow> number \<Rightarrow> number \<Rightarrow> PDFOperator" where
  "fillingRgbColor = Op_rg"

definition strokingRgbColor :: "number \<Rightarrow> number \<Rightarrow> number \<Rightarrow> PDFOperator" where
  "strokingRgbColor = Op_RG"

section \<open>drawRectangle and drawSquare\<close>

text \<open>
  \<open>IDrawRectangleOptions\<close>: every property is optional. The fields carry the prefix
  \<open>r_\<close> (and \<open>s_\<close> for \<open>IDrawSquareOptions\<close>) because the two interfaces share names.
\<close>

record IDrawRectangleOptions =
  r_x :: "number option"
  r_y :: "number option"
  r_width :: "number option"
  r_height :: "number option"
  r_borderWidth :: "number option"
  r_colorRgb :: "number list option"
  r_borderColorRgb :: "number list option"

record IDrawSquareOptions =
  s_x :: "number option"
  s_y :: "number option"
  s_size :: "number option"
  s_borderWidth :: "number option"
  s_colorRgb :: "number list option"
  s_borderColorRgb :: "number list option"

definition drawRectangle :: "IDrawRectangleOptions \<Rightarrow> PDFOperator list" where
  "drawRectangle options =
     [ pushGraphicsState,
       fillingRgbColor
         (get_at (r_colorRgb options) 0 (Num 0))
         (get_at (r_colorRgb options) 1 (Num 0))
         (get_at (r_colorRgb options) 2 (Num 0)),
       strokingRgbColor
         (get_at (r_borderColorRgb options) 0 (Num 0))
         (get_at (r_borderColorRgb options) 1 (Num 0))
         (get_at (r_borderColorRgb options) 2 (Num 0)),
       lineWidth (or_number (r_borderWidth options) (Num 15)),
       rectangle
         (or_number (r_x options) (Num 0))
         (or_number (r_y options) (Num 0))
         (or_number (r_width options) (Num 150))
         (or_number (r_height options) (Num 100)),
       (if \<not> isEmpty (r_colorRgb options) \<and> \<not> isEmpty (r_borderColorRgb options)
          then fillAndStroke
        else if \<not> isEmpty (r_colorRgb options) then fill
        else if \<not> isEmpty (r_borderColorRgb options) then stroke
        else closePath),
       popGraphicsState ]"

definition drawSquare :: "IDrawSquareOptions \<Rightarrow> PDFOperator list" where
  "drawSquare options =
     drawRectangle
       \<lparr> r_x = Some (or_number (s_x options) (Num 0)),
         r_y = Some (or_number (s_y options) (Num 0)),
         r_width = Some (or_number (s_size options) (Num 100)),
         r_height = Some (or_number (s_size options) (Num 100)),
         r_borderWidth = Some (or_number (s_borderWidth options) (Num 15)),
         r_colorRgb = Some (or_array (s_colorRgb options) []),
         r_borderColorRgb = Some (or_array (s_borderColorRgb options) []) \<rparr>"

text \<open>The options object \<open>{}\<close>: no property is present.\<close>

definition no_options :: IDrawRectangleOptions where
  "no_options =
     \<lparr> r_x = None, r_y = None, r_width = None, r_height = None, r_borderWidth = None,
       r_colorRgb = None, r_borderColorRgb = None \<rparr>"

text \<open>A colour is supplied when the property is present and the array is not empty.\<close>

definition supplied :: "number list option \<Rightarrow> bool" where
  "supplied c = (c \<noteq> None \<and> c \<noteq> Some [])"

section \<open>Byte buffers\<close>

type_synonym byte = "8 word"

text \<open>
  A \<open>Uint8Array\<close> view: the bytes of the underlying buffer up to the end of the view, and
  the offset at which the view starts. The view holds the bytes from \<open>byteOffset\<close> on.
\<close>

record Uint8Array =
  buffer :: "byte list"
  byteOffset :: nat

definition view_length :: "Uint8Array \<Rightarrow> nat" where
  "view_length a = length (buffer a) - byteOffset a"

text \<open>\<open>a[i] = b\<close>: a write outside a typed array is dropped.\<close>

definition view_set :: "Uint8Array \<Rightarrow> nat \<Rightarrow> byte \<Rightarrow> Uint8Array" where
  "view_set a i b =
     (if i < view_length a then a\<lparr>buffer := (buffer a)[byteOffset a + i := b]\<rparr> else a)"

text \<open>\<open>a.subarray(n)\<close>: the same buffer, from \<open>n\<close> on; \<open>n\<close> is clamped to the length.\<close>

definition subarray :: "Uint8Array \<Rightarrow> nat \<Rightarrow> Uint8Array" where
  "subarray a n = a\<lparr>byteOffset := byteOffset a + min n (view_length a)\<rparr>"

definition charCodeAt :: "char \<Rightarrow> byte" where
  "charCodeAt c = of_nat (of_char c)"

fun write_chars :: "nat \<Rightarrow> string \<Rightarrow> Uint8Array \<Rightarrow> Uint8Array" where
  "write_chars i [] a = a"
| "write_chars i (c # cs) a = write_chars (Suc i) cs (view_set a i (charCodeAt c))"

text \<open>
  Modelled from the spec: \<open>addStringToBuffer\<close> of \<open>utils\<close> is not among the sources. It is
  the write operation of the uniform \<open>byteSize()\<close> / \<open>writeInto(buffer)\<close> contract for a
  string: it stores the character codes of the string at the start of the view and
  returns the rest of the view.
\<close>

definition addStringToBuffer :: "string \<Rightarrow> Uint8Array \<Rightarrow> Uint8Array" where
  "addStringToBuffer str a = subarray (write_chars 0 str a) (length str)"

section \<open>Errors\<close>

text \<open>
  \<open>TypeValidation msg\<close> is the error thrown by \<open>validate\<close> and \<open>validateArr\<close> with their
  message, \<open>InvalidDictionary\<close> the one of \<open>validateDictionary\<close>, and \<open>TypeError\<close> the
  JavaScript error of setting a property of \<open>undefined\<close>.
\<close>

datatype error = TypeValidation string | InvalidDictionary | TypeError

section \<open>Objects and dictionaries\<close>

text \<open>
  Modelled from the spec: the object model (\<open>core/pdf-objects\<close>) is not among the
  sources. Of the object variants the content stream needs the number (the \<open>Length\<close> it
  stores) and the indirect reference (a lookup key into the index); \<open>PDFOtherObject\<close>
  stands for every other variant.
\<close>

datatype PDFObject = PDFNumber nat | PDFIndirectReference nat | PDFOtherObject

text \<open>
  Modelled from the spec: a dictionary maps names to objects or references and keeps
  the insertion order of its keys; it knows the index that resolves references.
\<close>

record PDFDictionary =
  entries :: "(string \<times> PDFObject) list"
  index :: "(nat \<times> PDFObject) list"

definition dict_get :: "PDFDictionary \<Rightarrow> string \<Rightarrow> PDFObject option" where
  "dict_get d k = map_of (entries d) k"

definition dict_set :: "PDFDictionary \<Rightarrow> string \<Rightarrow> PDFObject \<Rightarrow> PDFDictionary" where
  "dict_set d k v = d\<lparr>entries := AList.update k v (entries d)\<rparr>"

text \<open>
  Modelled from the spec: \<open>index.lookup\<close> resolves a reference by querying the index
  (\<open>None\<close> when the number is absent); an object that is not a reference is returned as
  it is, and so is \<open>undefined\<close>.
\<close>

definition lookup :: "(nat \<times> PDFObject) list \<Rightarrow> PDFObject option \<Rightarrow> PDFObject option" where
  "lookup idx v =
     (case v of
        None \<Rightarrow> None
      | Some (PDFIndirectReference r) \<Rightarrow> map_of idx r
      | Some obj \<Rightarrow> Some obj)"

section \<open>Arguments of the constructor\<close>

text \<open>
  The variadic arguments are checked at run time, so they are any values: an operator,
  an array of values, or something else.
\<close>

datatype 'op val = Operator 'op | Array "'op val list" | Other

definition isInstance_PDFOperator :: "'op val \<Rightarrow> bool" where
  "isInstance_PDFOperator v = (case v of Operator _ \<Rightarrow> True | _ \<Rightarrow> False)"

definition isArrayOf_PDFOperator :: "'op val \<Rightarrow> bool" where
  "isArrayOf_PDFOperator v =
     (case v of Array vs \<Rightarrow> list_all isInstance_PDFOperator vs | _ \<Rightarrow> False)"

definition or_pred :: "('a \<Rightarrow> bool) \<Rightarrow> ('a \<Rightarrow> bool) \<Rightarrow> 'a \<Rightarrow> bool" where
  "or_pred p q v = (p v \<or> q v)"

text \<open>
  Modelled from the spec: \<open>validateArr\<close> of \<open>utils/validate\<close> is not among the sources.
  It fails with the type-validation error at the first element that the predicate
  rejects.
\<close>

fun validateArr :: "'a list \<Rightarrow> ('a \<Rightarrow> bool) \<Rightarrow> string \<Rightarrow> error + unit" where
  "validateArr [] p msg = Inr ()"
| "validateArr (v # vs) p msg =
     (if p v then validateArr vs p msg else Inl (TypeValidation msg))"

text \<open>lodash \<open>flatten\<close>: one level of nesting is removed.\<close>

fun flatten :: "'op val list \<Rightarrow> 'op val list" where
  "flatten [] = []"
| "flatten (Array vs # rest) = vs @ flatten rest"
| "flatten (v # rest) = v # flatten rest"

section \<open>PDFContentStream\<close>

text \<open>
  The \<open>operators\<close> array is typed \<open>PDFOperator[]\<close>; \<open>None\<close> is a hole of the array (an
  index below its length that was never assigned), which \<open>filter(Boolean)\<close> skips.
\<close>

record 'op PDFContentStream =
  dictionary :: PDFDictionary
  operators :: "'op option list"

text \<open>
  The methods of the dictionary and of the operators are not among the sources; they
  are parameters of the model.
\<close>

record 'op methods =
  dictionary_bytesSize :: "PDFDictionary \<Rightarrow> nat"
  dictionary_copyBytesInto :: "PDFDictionary \<Rightarrow> Uint8Array \<Rightarrow> Uint8Array"
  operator_bytesSize :: "'op \<Rightarrow> nat"
  operator_copyBytesInto :: "'op \<Rightarrow> Uint8Array \<Rightarrow> Uint8Array"

text \<open>\<open>xs.filter(Boolean)\<close> on the operators: the holes are dropped.\<close>

fun filter_Boolean :: "'op option list \<Rightarrow> 'op list" where
  "filter_Boolean [] = []"
| "filter_Boolean (None # rest) = filter_Boolean rest"
| "filter_Boolean (Some op # rest) = op # filter_Boolean rest"

definition operatorsBytesSize :: "'op methods \<Rightarrow> 'op PDFContentStream \<Rightarrow> nat" where
  "operatorsBytesSize M this =
     foldl (+) 0 (map (operator_bytesSize M) (filter_Boolean (operators this)))"

definition bytesSize :: "'op methods \<Rightarrow> 'op PDFContentStream \<Rightarrow> nat" where
  "bytesSize M this =
     dictionary_bytesSize M (dictionary this) + 1 + 7 + operatorsBytesSize M this + 10"

text \<open>The getter \<open>Length\<close>: the entry of the dictionary, resolved through the index.\<close>

definition Length :: "'op PDFContentStream \<Rightarrow> PDFObject option" where
  "Length this =
     lookup (index (dictionary this)) (dict_get (dictionary this) ''Length'')"

text \<open>
  \<open>this.Length.number = n\<close>. The object that the getter returns is updated where it
  lives: in the dictionary when the entry is the number itself, in the index when the
  entry is a reference to a number. Setting the property on \<open>undefined\<close> is a
  \<open>TypeError\<close>; on an object that is not a number it changes nothing that is read.
\<close>

definition set_Length_number ::
  "nat \<Rightarrow> 'op PDFContentStream \<Rightarrow> error + 'op PDFContentStream" where
  "set_Length_number n this =
     (let d = dictionary this in
      case dict_get d ''Length'' of
        None \<Rightarrow> Inl TypeError
      | Some (PDFNumber _) \<Rightarrow> Inr (this\<lparr>dictionary := dict_set d ''Length'' (PDFNumber n)\<rparr>)
      | Some (PDFIndirectReference r) \<Rightarrow>
          (case map_of (index d) r of
             None \<Rightarrow> Inl TypeError
           | Some (PDFNumber _) \<Rightarrow>
               Inr (this\<lparr>dictionary := d\<lparr>index := AList.update r (PDFNumber n) (index d)\<rparr>\<rparr>)
           | Some _ \<Rightarrow> Inr this)
      | Some PDFOtherObject \<Rightarrow> Inr this)"

text \<open>
  A property key of the array as the proxy's \<open>set\<close> trap receives it: an index or a
  name such as \<open>length\<close>. \<open>Number(property)\<close> is the index, and \<open>NaN\<close> for a name.
\<close>

datatype property = Index nat | Name string

definition Number_of :: "property \<Rightarrow> number" where
  "Number_of p = (case p of Index i \<Rightarrow> Num (real i) | Name _ \<Rightarrow> NaN)"

text \<open>lodash \<open>isNumber\<close>: true of every value of type number, \<open>NaN\<close> included.\<close>

definition isNumber :: "number \<Rightarrow> bool" where
  "isNumber n = True"

text \<open>The \<open>set\<close> callback that the constructor gives to the proxy.\<close>

definition set_callback ::
  "'op methods \<Rightarrow> property \<Rightarrow> 'op PDFContentStream \<Rightarrow> error + 'op PDFContentStream" where
  "set_callback M p this =
     (if isNumber (Number_of p) then set_Length_number (operatorsBytesSize M this) this
      else Inr this)"

text \<open>
  A write to the array: \<open>operators[i] = op\<close> or \<open>operators.length = n\<close>. An assignment
  beyond the end extends the array and leaves holes; setting the length truncates the
  array or extends it with holes.
\<close>

datatype 'op array_write = SetIndex nat 'op | SetLength nat

definition property_of :: "'op array_write \<Rightarrow> property" where
  "property_of w = (case w of SetIndex i _ \<Rightarrow> Index i | SetLength _ \<Rightarrow> Name ''length'')"

definition target_set :: "'op option list \<Rightarrow> 'op array_write \<Rightarrow> 'op option list" where
  "target_set xs w =
     (case w of
        SetIndex i v \<Rightarrow>
          if i < length xs then xs[i := Some v]
          else xs @ replicate (i - length xs) None @ [Some v]
      | SetLength n \<Rightarrow>
          if n \<le> length xs then take n xs else xs @ replicate (n - length xs) None)"

text \<open>
  \<open>typedArrayProxy\<close> of \<open>utils/proxies\<close> is not among the sources. Its \<open>set\<close> trap does
  the write on the array and runs the \<open>set\<close> callback of the configuration with the
  property that is written. Neither the sources nor the specification say which of the
  two comes first, so the order is a parameter of the model.
\<close>

datatype trap_order = CallbackThenWrite | WriteThenCallback

definition proxy_set ::
  "'op methods \<Rightarrow> trap_order \<Rightarrow> 'op array_write \<Rightarrow> 'op PDFContentStream
     \<Rightarrow> error + 'op PDFContentStream" where
  "proxy_set M ord w this =
     (case ord of
        WriteThenCallback \<Rightarrow>
          set_callback M (property_of w) (this\<lparr>operators := target_set (operators this) w\<rparr>)
      | CallbackThenWrite \<Rightarrow>
          (case set_callback M (property_of w) this of
             Inl e \<Rightarrow> Inl e
           | Inr this' \<Rightarrow> Inr (this'\<lparr>operators := target_set (operators this') w\<rparr>)))"

text \<open>
  After validation every element of the flattened arguments is an operator; the array
  that the proxy wraps has no hole.
\<close>

fun typedArray :: "'op val list \<Rightarrow> 'op option list" where
  "typedArray [] = []"
| "typedArray (Operator op # rest) = Some op # typedArray rest"
| "typedArray (v # rest) = typedArray rest"

definition constructor ::
  "'op methods \<Rightarrow> PDFDictionary \<Rightarrow> 'op val list \<Rightarrow> error + 'op PDFContentStream" where
  "constructor M dict args =
     (case validateArr args (or_pred isInstance_PDFOperator isArrayOf_PDFOperator)
             ''PDFContentStream requires PDFOperators or PDFOperator[]s to be constructed.'' of
        Inl e \<Rightarrow> Inl e
      | Inr _ \<Rightarrow>
          let this = \<lparr>dictionary = dict, operators = typedArray (flatten args)\<rparr>
          in Inr (this\<lparr>dictionary :=
                      dict_set (dictionary this) ''Length''
                        (PDFNumber (operatorsBytesSize M this))\<rparr>))"

text \<open>
  Modelled from the spec: \<open>validateDictionary\<close> of \<open>PDFStream\<close> is not among the sources.
  A stream must carry a \<open>Length\<close> entry.
\<close>

definition validateDictionary :: "'op PDFContentStream \<Rightarrow> error + unit" where
  "validateDictionary this =
     (case dict_get (dictionary this) ''Length'' of
        None \<Rightarrow> Inl InvalidDictionary
      | Some _ \<Rightarrow> Inr ())"

definition copyBytesInto ::
  "'op methods \<Rightarrow> 'op PDFContentStream \<Rightarrow> Uint8Array \<Rightarrow> error + Uint8Array" where
  "copyBytesInto M this buf =
     (case validateDictionary this of
        Inl e \<Rightarrow> Inl e
      | Inr _ \<Rightarrow>
          let remaining = dictionary_copyBytesInto M (dictionary this) buf;
              remaining = addStringToBuffer ''\<newline>stream\<newline>'' remaining;
              remaining = foldl (\<lambda>remBytes op. operator_copyBytesInto M op remBytes)
                            remaining (filter_Boolean (operators this));
              remaining = addStringToBuffer ''\<newline>endstream'' remaining
          in Inr remaining)"

text \<open>
  The mutations of the operator sequence made through the proxy: \<open>operators[i] = op\<close>
  and \<open>operators.push(op)\<close>. \<open>push\<close> sets the element at the current length and then the
  \<open>length\<close> property; both writes go through the \<open>set\<close> trap.
\<close>

datatype 'op mutation = Assign nat 'op | Push 'op

fun mutate ::
  "'op methods \<Rightarrow> trap_order \<Rightarrow> 'op mutation \<Rightarrow> 'op PDFContentStream
     \<Rightarrow> error + 'op PDFContentStream" where
  "mutate M ord (Assign i v) this = proxy_set M ord (SetIndex i v) this"
| "mutate M ord (Push v) this =
     (let n = length (operators this) in
      case proxy_set M ord (SetIndex n v) this of
        Inl e \<Rightarrow> Inl e
      | Inr this' \<Rightarrow> proxy_set M ord (SetLength (Suc n)) this')"

fun mutate_all ::
  "'op methods \<Rightarrow> trap_order \<Rightarrow> 'op mutation list \<Rightarrow> 'op PDFContentStream
     \<Rightarrow> error + 'op PDFContentStream" where
  "mutate_all M ord [] this = Inr this"
| "mutate_all M ord (m # ms) this =
     (case mutate M ord m this of Inl e \<Rightarrow> Inl e | Inr this' \<Rightarrow> mutate_all M ord ms this')"

section \<open>Notions of the specification\<close>

text \<open>
  Writing the bytes \<open>bs\<close> at the start of a view: the bytes of the buffer from the offset
  of the view on are replaced by \<open>bs\<close>, every other byte of the buffer stays, and the
  view that is returned starts after \<open>bs\<close>.
\<close>

definition put_bytes :: "Uint8Array \<Rightarrow> byte list \<Rightarrow> Uint8Array" where
  "put_bytes a bs =
     \<lparr> buffer = take (byteOffset a) (buffer a) @ bs
                  @ drop (byteOffset a + length bs) (buffer a),
       byteOffset = byteOffset a + length bs \<rparr>"

text \<open>
  The contract of a writer: \<open>w\<close> writes exactly the bytes \<open>bs\<close> into every view that has
  room for them. The number of bytes it writes is the length of \<open>bs\<close>.
\<close>

definition writes_bytes :: "(Uint8Array \<Rightarrow> Uint8Array) \<Rightarrow> byte list \<Rightarrow> bool" where
  "writes_bytes w bs = (\<forall>a. length bs \<le> view_length a \<longrightarrow> w a = put_bytes a bs)"

text \<open>
  The number of bytes written between a view and the view that a write returns.
\<close>

definition bytes_written :: "Uint8Array \<Rightarrow> Uint8Array \<Rightarrow> nat" where
  "bytes_written a a' = byteOffset a' - byteOffset a"

text \<open>
  The bytes of a content stream, given the bytes of its dictionary and of each
  operator: the dictionary, the delimiter that opens the stream, the operators
  currently in the sequence, and the delimiter that ends the stream.
\<close>

definition stream_bytes :: "byte list \<Rightarrow> ('op \<Rightarrow> byte list) \<Rightarrow> 'op list \<Rightarrow> byte list" where
  "stream_bytes dbytes obytes ops =
     dbytes @ map charCodeAt ''\<newline>stream\<newline>'' @ concat (map obytes ops)
       @ map charCodeAt ''\<newline>endstream''"

text \<open>The one-level flattening of the arguments: the operators they hold, in order.\<close>

fun operators_of :: "'op val \<Rightarrow> 'op list" where
  "operators_of (Operator op) = [op]"
| "operators_of (Array vs) = concat (map (\<lambda>v. case v of Operator op \<Rightarrow> [op] | _ \<Rightarrow> []) vs)"
| "operators_of Other = []"

text \<open>The operators currently in the sequence.\<close>

definition current_operators :: "'op PDFContentStream \<Rightarrow> 'op list" where
  "current_operators this = concat (map (\<lambda>v. case v of None \<Rightarrow> [] | Some op \<Rightarrow> [op]) (operators this))"

text \<open>An argument that the constructor accepts: an operator or an array of operators.\<close>

fun valid_argument :: "'op val \<Rightarrow> bool" where
  "valid_argument (Operator op) = True"
| "valid_argument (Array vs) = list_all (\<lambda>v. case v of Operator _ \<Rightarrow> True | _ \<Rightarrow> False) vs"
| "valid_argument Other = False"

text \<open>
  Two properties of the \<open>Length\<close> entry of a content stream: it is a number stored in
  the dictionary itself (not a reference), and that number is the size of the current
  operators.
\<close>

definition Length_is_number :: "'op PDFContentStream \<Rightarrow> bool" where
  "Length_is_number this =
     (case dict_get (dictionary this) ''Length'' of Some (PDFNumber _) \<Rightarrow> True | _ \<Rightarrow> False)"

definition Length_in_sync :: "'op methods \<Rightarrow> 'op PDFContentStream \<Rightarrow> bool" where
  "Length_in_sync M this =
     (dict_get (dictionary this) ''Length'' = Some (PDFNumber (operatorsBytesSize M this)))"

section \<open>An instance for the examples\<close>

text \<open>
  Operators given by their encoded text: the size of an operator is the length of its
  text, and it writes its text. The dictionary of the examples writes \<open><<\<close>, one
  character for each entry and \<open>>>\<close>.
\<close>

definition text_methods :: "string methods" where
  "text_methods =
     \<lparr> dictionary_bytesSize = (\<lambda>d. 4 + length (entries d)),
       dictionary_copyBytesInto =
         (\<lambda>d. addStringToBuffer (''<<'' @ replicate (length (entries d)) CHR ''/'' @ ''>>'')),
       operator_bytesSize = length,
       operator_copyBytesInto = addStringToBuffer \<rparr>"

definition example_stream :: "string PDFContentStream" where
  "example_stream =
     \<lparr> dictionary = \<lparr>entries = [(''Length'', PDFNumber 17)], index = []\<rparr>,
       operators = [Some ''q'', Some ''0 0 150 100 re'', Some ''f'', Some ''Q''] \<rparr>"

text \<open>
  A second instance: an operator is written as its text followed by a line feed.
\<close>

definition line_methods :: "string methods" where
  "line_methods =
     \<lparr> dictionary_bytesSize = (\<lambda>d. 4 + length (entries d)),
       dictionary_copyBytesInto =
         (\<lambda>d. addStringToBuffer (''<<'' @ replicate (length (entries d)) CHR ''/'' @ ''>>'')),
       operator_bytesSize = (\<lambda>op. length op + 1),
       operator_copyBytesInto = (\<lambda>op. addStringToBuffer (op @ ''\<newline>'')) \<rparr>"

text \<open>
  The stream built from \<open>q\<close>, \<open>[0 0 150 100 re, f]\<close> and \<open>Q\<close> with the second instance, and
  the states it is in after \<open>operators[0] = 1 w\<close>, and after \<open>operators.push(S)\<close>,
  \<open>operators[6] = h\<close> and \<open>operators[0] = 1 w\<close>, when the trap runs the callback first.
\<close>

definition example_lines :: "string PDFContentStream" where
  "example_lines =
     \<lparr> dictionary = \<lparr>entries = [(''Length'', PDFNumber 21)], index = []\<rparr>,
       operators = [Some ''q'', Some ''0 0 150 100 re'', Some ''f'', Some ''Q''] \<rparr>"

definition example_assigned :: "string PDFContentStream" where
  "example_assigned =
     \<lparr> dictionary = \<lparr>entries = [(''Length'', PDFNumber 21)], index = []\<rparr>,
       operators = [Some ''1 w'', Some ''0 0 150 100 re'', Some ''f'', Some ''Q''] \<rparr>"

definition example_mutated :: "string PDFContentStream" where
  "example_mutated =
     \<lparr> dictionary = \<lparr>entries = [(''Length'', PDFNumber 25)], index = []\<rparr>,
       operators = [Some ''1 w'', Some ''0 0 150 100 re'', Some ''f'', Some ''Q'', Some ''S'',
                    None, Some ''h''] \<rparr>"

text \<open>\<open>new Uint8Array(n)\<close>: a fresh buffer of \<open>n\<close> zero bytes.\<close>

definition new_Uint8Array :: "nat \<Rightarrow> Uint8Array" where
  "new_Uint8Array n = \<lparr>buffer = replicate n 0, byteOffset = 0\<rparr>"

section \<open>Properties of the drawing helpers\<close>

lemmas helper_defs =
  pushGraphicsState_def popGraphicsState_def lineWidth_def closePath_def rectangle_def
  stroke_def fill_def fillAndStroke_def fillingRgbColor_def strokingRgbColor_def

lemma isEmpty_supplied: "isEmpty c = (\<not> supplied c)"
  by (cases c) (simp_all add: isEmpty_def supplied_def)

lemma or_number_default: "truthy d \<Longrightarrow> or_number (Some (or_number v d)) d' = or_number v d"
  by (cases v) (simp_all add: or_number_def)

lemma or_number_same: "or_number (Some (or_number v d)) d = or_number v d"
  by (cases v) (simp_all add: or_number_def)

lemma get_at_or_array: "get_at (Some (or_array c [])) i d = get_at c i d"
  by (cases c) (simp_all add: get_at_def or_array_def)

lemma isEmpty_or_array: "isEmpty (Some (or_array c [])) = isEmpty c"
  by (cases c) (simp_all add: isEmpty_def or_array_def)

text \<open>
  Claim C3. For every options object, the operator in the sixth position of the result
  of \<open>drawRectangle\<close> is fill-and-stroke (\<open>B\<close>) if both \<open>colorRgb\<close> and \<open>borderColorRgb\<close>
  are non-empty, fill (\<open>f\<close>) if only \<open>colorRgb\<close> is, stroke (\<open>S\<close>) if only
  \<open>borderColorRgb\<close> is, and path-close (\<open>h\<close>) if both are absent or empty, in which case
  the result holds no paint operator.
\<close>

theorem drawRectangle_paint_operator:
  "(supplied (r_colorRgb options) \<and> supplied (r_borderColorRgb options)
      \<longrightarrow> drawRectangle options ! 5 = Op_B) \<and>
   (supplied (r_colorRgb options) \<and> \<not> supplied (r_borderColorRgb options)
      \<longrightarrow> drawRectangle options ! 5 = Op_f) \<and>
   (\<not> supplied (r_colorRgb options) \<and> supplied (r_borderColorRgb options)
      \<longrightarrow> drawRectangle options ! 5 = Op_S) \<and>
   (\<not> supplied (r_colorRgb options) \<and> \<not> supplied (r_borderColorRgb options)
      \<longrightarrow> drawRectangle options ! 5 = Op_h \<and>
          Op_B \<notin> set (drawRectangle options) \<and>
          Op_f \<notin> set (drawRectangle options) \<and>
          Op_S \<notin> set (drawRectangle options))"
  by (simp add: drawRectangle_def helper_defs isEmpty_supplied)

theorem drawRectangle_paint_operator_witness:
  "drawRectangle (no_options\<lparr>r_colorRgb := Some [Num 1, Num 0, Num 0],
                             r_borderColorRgb := Some [Num 0, Num 0, Num 1]\<rparr>) ! 5 = Op_B \<and>
   drawRectangle (no_options\<lparr>r_colorRgb := Some [Num 1, Num 0, Num 0]\<rparr>) ! 5 = Op_f \<and>
   drawRectangle (no_options\<lparr>r_borderColorRgb := Some [Num 0, Num 0, Num 1]\<rparr>) ! 5 = Op_S \<and>
   drawRectangle (no_options\<lparr>r_colorRgb := Some []\<rparr>) ! 5 = Op_h"
  using
    drawRectangle_paint_operator
      [of "no_options\<lparr>r_colorRgb := Some [Num 1, Num 0, Num 0],
                       r_borderColorRgb := Some [Num 0, Num 0, Num 1]\<rparr>"]
    drawRectangle_paint_operator [of "no_options\<lparr>r_colorRgb := Some [Num 1, Num 0, Num 0]\<rparr>"]
    drawRectangle_paint_operator [of "no_options\<lparr>r_borderColorRgb := Some [Num 0, Num 0, Num 1]\<rparr>"]
    drawRectangle_paint_operator [of "no_options\<lparr>r_colorRgb := Some []\<rparr>"]
  by (simp add: no_options_def supplied_def)

text \<open>
  Claim C4. \<open>drawRectangle\<close> called with no explicit options (\<open>colorRgb\<close> and
  \<open>borderColorRgb\<close> absent or empty, every other property absent) returns exactly:
  \<open>q\<close>, \<open>rg\<close> with (0, 0, 0), \<open>RG\<close> with (0, 0, 0), \<open>w\<close> with 15, \<open>re\<close> with
  (0, 0, 150, 100), \<open>h\<close>, \<open>Q\<close>.
\<close>

theorem drawRectangle_no_options:
  assumes "c = None \<or> c = Some []" and "b = None \<or> b = Some []"
  shows "drawRectangle (no_options\<lparr>r_colorRgb := c, r_borderColorRgb := b\<rparr>) =
           [Op_q,
            Op_rg (Num 0) (Num 0) (Num 0),
            Op_RG (Num 0) (Num 0) (Num 0),
            Op_w (Num 15),
            Op_re (Num 0) (Num 0) (Num 150) (Num 100),
            Op_h,
            Op_Q]"
  using assms
  by (auto simp add: drawRectangle_def helper_defs no_options_def get_at_def or_number_def
      isEmpty_def)

theorem drawRectangle_no_options_witness:
  "drawRectangle (no_options\<lparr>r_colorRgb := Some [], r_borderColorRgb := None\<rparr>) =
           [Op_q,
            Op_rg (Num 0) (Num 0) (Num 0),
            Op_RG (Num 0) (Num 0) (Num 0),
            Op_w (Num 15),
            Op_re (Num 0) (Num 0) (Num 150) (Num 100),
            Op_h,
            Op_Q]"
  using drawRectangle_no_options [of "Some []" None] by simp

text \<open>
  Claim C5, as stated: when \<open>colorRgb\<close> is not supplied the result holds no fill-colour
  operator, and when \<open>borderColorRgb\<close> is not supplied it holds no stroke-colour
  operator. It fails on the empty options object: the second operator of the result is
  the fill colour (0, 0, 0) and the third the stroke colour (0, 0, 0).
\<close>

theorem drawRectangle_absent_color_counterexample:
  "r_colorRgb no_options = None \<and>
   drawRectangle no_options ! 1 = fillingRgbColor (Num 0) (Num 0) (Num 0) \<and>
   fillingRgbColor (Num 0) (Num 0) (Num 0) \<in> set (drawRectangle no_options) \<and>
   r_borderColorRgb no_options = None \<and>
   drawRectangle no_options ! 2 = strokingRgbColor (Num 0) (Num 0) (Num 0) \<and>
   strokingRgbColor (Num 0) (Num 0) (Num 0) \<in> set (drawRectangle no_options)"
  by (simp add: drawRectangle_def no_options_def get_at_def)

text \<open>
  Claim C5, amended. For every options object passed to \<open>drawRectangle\<close> in which
  \<open>colorRgb\<close> is not supplied (absent or empty), the returned sequence contains the
  fill-colour operator with components (0, 0, 0), in second position; likewise, when
  \<open>borderColorRgb\<close> is not supplied, it contains the stroke-colour operator with
  components (0, 0, 0), in third position.
\<close>

theorem drawRectangle_color_operators:
  "(\<not> supplied (r_colorRgb options) \<longrightarrow>
      drawRectangle options ! 1 = Op_rg (Num 0) (Num 0) (Num 0) \<and>
      Op_rg (Num 0) (Num 0) (Num 0) \<in> set (drawRectangle options)) \<and>
   (\<not> supplied (r_borderColorRgb options) \<longrightarrow>
      drawRectangle options ! 2 = Op_RG (Num 0) (Num 0) (Num 0) \<and>
      Op_RG (Num 0) (Num 0) (Num 0) \<in> set (drawRectangle options))"
  by (auto simp add: drawRectangle_def helper_defs supplied_def get_at_def)

theorem drawRectangle_color_operators_witness:
  "drawRectangle (no_options\<lparr>r_borderColorRgb := Some [Num 0, Num 0, Num 1]\<rparr>) ! 1
     = Op_rg (Num 0) (Num 0) (Num 0) \<and>
   Op_rg (Num 0) (Num 0) (Num 0)
     \<in> set (drawRectangle (no_options\<lparr>r_borderColorRgb := Some [Num 0, Num 0, Num 1]\<rparr>)) \<and>
   drawRectangle (no_options\<lparr>r_colorRgb := Some []\<rparr>) ! 2 = Op_RG (Num 0) (Num 0) (Num 0) \<and>
   Op_RG (Num 0) (Num 0) (Num 0) \<in> set (drawRectangle (no_options\<lparr>r_colorRgb := Some []\<rparr>))"
  using
    drawRectangle_color_operators
      [of "no_options\<lparr>r_borderColorRgb := Some [Num 0, Num 0, Num 1]\<rparr>"]
    drawRectangle_color_operators [of "no_options\<lparr>r_colorRgb := Some []\<rparr>"]
  by (simp add: no_options_def supplied_def)

text \<open>
  Claim C8. \<open>drawRectangle\<close> treats a numeric option equal to 0 as an absent one for
  \<open>width\<close>, \<open>height\<close> and \<open>borderWidth\<close>: with \<open>width: 0\<close> the rectangle has width 150,
  with \<open>height: 0\<close> it has height 100, and with \<open>borderWidth: 0\<close> the line width is 15.
\<close>

theorem drawRectangle_zero_is_absent:
  "drawRectangle (options\<lparr>r_width := Some (Num 0)\<rparr>) = drawRectangle (options\<lparr>r_width := None\<rparr>) \<and>
   drawRectangle (options\<lparr>r_width := Some (Num 0)\<rparr>) ! 4 =
     Op_re (or_number (r_x options) (Num 0)) (or_number (r_y options) (Num 0))
       (Num 150) (or_number (r_height options) (Num 100)) \<and>
   drawRectangle (options\<lparr>r_height := Some (Num 0)\<rparr>) = drawRectangle (options\<lparr>r_height := None\<rparr>) \<and>
   drawRectangle (options\<lparr>r_height := Some (Num 0)\<rparr>) ! 4 =
     Op_re (or_number (r_x options) (Num 0)) (or_number (r_y options) (Num 0))
       (or_number (r_width options) (Num 150)) (Num 100) \<and>
   drawRectangle (options\<lparr>r_borderWidth := Some (Num 0)\<rparr>) =
     drawRectangle (options\<lparr>r_borderWidth := None\<rparr>) \<and>
   drawRectangle (options\<lparr>r_borderWidth := Some (Num 0)\<rparr>) ! 3 = Op_w (Num 15)"
  by (simp add: drawRectangle_def helper_defs or_number_def)

theorem drawRectangle_zero_is_absent_witness:
  "drawRectangle (no_options\<lparr>r_width := Some (Num 0)\<rparr>) ! 4 =
     Op_re (Num 0) (Num 0) (Num 150) (Num 100) \<and>
   drawRectangle (no_options\<lparr>r_height := Some (Num 0)\<rparr>) ! 4 =
     Op_re (Num 0) (Num 0) (Num 150) (Num 100) \<and>
   drawRectangle (no_options\<lparr>r_borderWidth := Some (Num 0)\<rparr>) ! 3 = Op_w (Num 15)"
  using drawRectangle_zero_is_absent [of no_options]
  by (clarsimp simp add: no_options_def or_number_def)

text \<open>
  Claim C9. For every options object, \<open>drawRectangle\<close> returns exactly 7 operators; the
  first is push-graphics-state (\<open>q\<close>) and the last is pop-graphics-state (\<open>Q\<close>).
\<close>

theorem drawRectangle_shape:
  "length (drawRectangle options) = 7 \<and>
   hd (drawRectangle options) = Op_q \<and>
   last (drawRectangle options) = Op_Q"
  by (simp add: drawRectangle_def helper_defs)

theorem drawRectangle_shape_witness:
  "length (drawRectangle no_options) = 7 \<and>
   hd (drawRectangle no_options) = Op_q \<and>
   last (drawRectangle no_options) = Op_Q"
  by (rule drawRectangle_shape [of no_options])

text \<open>
  Claim C10. For every options object \<open>o\<close>, \<open>drawSquare o\<close> is the result of
  \<open>drawRectangle\<close> on the options whose \<open>x\<close>, \<open>y\<close>, \<open>borderWidth\<close>, \<open>colorRgb\<close> and
  \<open>borderColorRgb\<close> are those of \<open>o\<close> and whose \<open>width\<close> and \<open>height\<close> are both the \<open>size\<close>
  of \<open>o\<close>, or 100 when it is absent or falsy; and \<open>square x y s\<close> is \<open>rectangle x y s s\<close>.
\<close>

theorem drawSquare_is_drawRectangle:
  "drawSquare options =
     drawRectangle
       \<lparr> r_x = s_x options,
         r_y = s_y options,
         r_width = Some (or_number (s_size options) (Num 100)),
         r_height = Some (or_number (s_size options) (Num 100)),
         r_borderWidth = s_borderWidth options,
         r_colorRgb = s_colorRgb options,
         r_borderColorRgb = s_borderColorRgb options \<rparr> \<and>
   square xPos yPos sz = rectangle xPos yPos sz sz"
  by (simp add: drawSquare_def drawRectangle_def square_def or_number_default
      or_number_same get_at_or_array isEmpty_or_array)

theorem drawSquare_is_drawRectangle_witness:
  "drawSquare \<lparr> s_x = Some (Num 25), s_y = None, s_size = Some (Num 0),
                s_borderWidth = None, s_colorRgb = Some [Num 1], s_borderColorRgb = None \<rparr> =
     [Op_q,
      Op_rg (Num 1) (Num 0) (Num 0),
      Op_RG (Num 0) (Num 0) (Num 0),
      Op_w (Num 15),
      Op_re (Num 25) (Num 0) (Num 100) (Num 100),
      Op_f,
      Op_Q] \<and>
   square (Num 1) (Num 2) (Num 3) = Op_re (Num 1) (Num 2) (Num 3) (Num 3)"
  using drawSquare_is_drawRectangle
    [of "\<lparr> s_x = Some (Num 25), s_y = None, s_size = Some (Num 0),
            s_borderWidth = None, s_colorRgb = Some [Num 1], s_borderColorRgb = None \<rparr>"
        "Num 1" "Num 2" "Num 3"]
  by (simp add: drawRectangle_def helper_defs or_number_def get_at_def isEmpty_def)

section \<open>Properties of the content stream\<close>

subsection \<open>Sizes\<close>

lemma foldl_add_sum_list: "foldl (+) (n::nat) xs = n + sum_list xs"
  by (induction xs arbitrary: n) simp_all

lemma filter_Boolean_current: "filter_Boolean (operators this) = current_operators this"
proof -
  have "filter_Boolean xs = concat (map (\<lambda>v. case v of None \<Rightarrow> [] | Some op \<Rightarrow> [op]) xs)"
    for xs :: "'a option list"
    by (induction xs rule: filter_Boolean.induct) simp_all
  then show ?thesis by (simp add: current_operators_def)
qed

lemma operatorsBytesSize_sum:
  "operatorsBytesSize M this = sum_list (map (operator_bytesSize M) (current_operators this))"
  by (simp add: operatorsBytesSize_def foldl_add_sum_list filter_Boolean_current)

text \<open>
  Claim C7. For every content stream, \<open>bytesSize\<close> is the size of the dictionary, plus 8
  bytes for the leading delimiter (\<open>\n\<close> and \<open>stream\n\<close>), plus the sum of the sizes of the
  operators, plus 10 bytes for the end delimiter (\<open>\nendstream\<close>).
\<close>

theorem bytesSize_parts:
  "bytesSize M this =
     dictionary_bytesSize M (dictionary this) + 8
       + sum_list (map (operator_bytesSize M) (current_operators this)) + 10 \<and>
   length ''\<newline>'' + length ''stream\<newline>'' = 8 \<and> length ''\<newline>endstream'' = 10"
  by (simp add: bytesSize_def operatorsBytesSize_sum)

theorem bytesSize_parts_witness:
  "bytesSize text_methods example_stream = 5 + 8 + (1 + 14 + 1 + 1) + 10"
  using bytesSize_parts [of text_methods example_stream]
  by (simp add: example_stream_def text_methods_def current_operators_def)

subsection \<open>Construction\<close>

lemma validateArr_list_all:
  "validateArr vs p msg = (if list_all p vs then Inr () else Inl (TypeValidation msg))"
  by (induction vs) simp_all

lemma isInstance_PDFOperator_fun:
  "isInstance_PDFOperator = (\<lambda>v. case v of Operator _ \<Rightarrow> True | _ \<Rightarrow> False)"
  by (rule ext) (simp add: isInstance_PDFOperator_def)

lemma or_pred_valid:
  "or_pred isInstance_PDFOperator isArrayOf_PDFOperator = valid_argument"
proof
  fix v :: "'a val"
  show "or_pred isInstance_PDFOperator isArrayOf_PDFOperator v = valid_argument v"
    by (cases v) (simp_all add: or_pred_def isArrayOf_PDFOperator_def isInstance_PDFOperator_fun)
qed

lemma typedArray_append: "typedArray (vs @ ws) = typedArray vs @ typedArray ws"
  by (induction vs rule: typedArray.induct) simp_all

lemma typedArray_operators:
  "typedArray vs = map Some (concat (map (\<lambda>v. case v of Operator op \<Rightarrow> [op] | _ \<Rightarrow> []) vs))"
  by (induction vs rule: typedArray.induct) simp_all

lemma typedArray_flatten:
  "list_all valid_argument args \<Longrightarrow>
     typedArray (flatten args) = map Some (concat (map operators_of args))"
  by (induction args rule: flatten.induct)
    (simp_all add: typedArray_append typedArray_operators)

text \<open>
  Claim C6. Constructing a content stream fails with the type-validation error if some
  argument is neither an operator nor an array of operators; for valid arguments it
  succeeds, and the operators of the stream are the one-level flattening of the
  arguments, in order.
\<close>

theorem constructor_validates_and_flattens:
  "(\<not> list_all valid_argument args \<longrightarrow>
      constructor M dict args =
        Inl (TypeValidation
          ''PDFContentStream requires PDFOperators or PDFOperator[]s to be constructed.'')) \<and>
   (list_all valid_argument args \<longrightarrow>
      (\<exists>this. constructor M dict args = Inr this \<and>
         operators this = map Some (concat (map operators_of args))))"
  by (simp add: constructor_def validateArr_list_all or_pred_valid Let_def typedArray_flatten)

theorem constructor_validates_and_flattens_witness:
  "constructor text_methods \<lparr>entries = [], index = []\<rparr>
      [Operator ''q'', Array [Operator ''S'', Other], Operator ''Q''] =
     Inl (TypeValidation
          ''PDFContentStream requires PDFOperators or PDFOperator[]s to be constructed.'') \<and>
   (\<exists>this. constructor text_methods \<lparr>entries = [], index = []\<rparr>
      [Operator ''q'', Array [Operator ''0 0 150 100 re'', Operator ''f''], Array [],
       Operator ''Q''] = Inr this \<and>
      operators this = [Some ''q'', Some ''0 0 150 100 re'', Some ''f'', Some ''Q''])"
  using
    constructor_validates_and_flattens
      [of "[Operator ''q'', Array [Operator ''S'', Other], Operator ''Q'']"
          text_methods "\<lparr>entries = [], index = []\<rparr>"]
    constructor_validates_and_flattens
      [of "[Operator ''q'', Array [Operator ''0 0 150 100 re'', Operator ''f''], Array [],
            Operator ''Q'']"
          text_methods "\<lparr>entries = [], index = []\<rparr>"]
  by simp

subsection \<open>The Length entry\<close>

lemma dict_get_set: "dict_get (dict_set d k v) k = Some v"
  by (simp add: dict_get_def dict_set_def update_Some_unfold)

lemma operatorsBytesSize_dictionary:
  "operatorsBytesSize M (this\<lparr>dictionary := d\<rparr>) = operatorsBytesSize M this"
  by (simp add: operatorsBytesSize_def)

lemma Length_in_sync_read:
  "Length_in_sync M this \<Longrightarrow> Length this = Some (PDFNumber (operatorsBytesSize M this))"
  by (simp add: Length_in_sync_def Length_def lookup_def)

lemma Length_in_sync_number: "Length_in_sync M this \<Longrightarrow> Length_is_number this"
  by (simp add: Length_in_sync_def Length_is_number_def)

lemma Length_is_number_present:
  "Length_is_number this \<Longrightarrow> dict_get (dictionary this) ''Length'' \<noteq> None"
  by (auto simp add: Length_is_number_def split: option.splits)

lemma constructor_Length:
  "constructor M dict args = Inr this \<Longrightarrow> Length_in_sync M this"
  by (auto simp add: constructor_def Length_in_sync_def Let_def operatorsBytesSize_def
      dict_get_set split: sum.splits)

lemma set_callback_Length:
  assumes "Length_is_number this"
  shows "set_callback M p this =
           Inr (this\<lparr>dictionary :=
                  dict_set (dictionary this) ''Length'' (PDFNumber (operatorsBytesSize M this))\<rparr>)"
  using assms
  by (auto simp add: set_callback_def isNumber_def set_Length_number_def Length_is_number_def
      split: option.splits PDFObject.splits)

text \<open>
  A write through the trap, in either order: it succeeds, the array is written, and
  \<open>Length\<close> is the size of the operators that the callback saw.
\<close>

lemma proxy_set_result:
  assumes "Length_is_number this"
  shows "proxy_set M ord w this =
           Inr \<lparr> dictionary =
                   dict_set (dictionary this) ''Length''
                     (PDFNumber (operatorsBytesSize M
                        (case ord of
                           CallbackThenWrite \<Rightarrow> this
                         | WriteThenCallback \<Rightarrow>
                             this\<lparr>operators := target_set (operators this) w\<rparr>))),
                 operators = target_set (operators this) w \<rparr>"
proof (cases ord)
  case CallbackThenWrite
  then show ?thesis
    using set_callback_Length [OF assms, of M "property_of w"]
    by (simp add: proxy_set_def)
next
  case WriteThenCallback
  have "Length_is_number (this\<lparr>operators := target_set (operators this) w\<rparr>)"
    using assms by (simp add: Length_is_number_def)
  from set_callback_Length [OF this, of M "property_of w"] WriteThenCallback
  show ?thesis by (simp add: proxy_set_def)
qed

lemma proxy_set_number:
  assumes "Length_is_number this"
  shows "\<exists>this'. proxy_set M ord w this = Inr this' \<and> Length_is_number this' \<and>
           operators this' = target_set (operators this) w"
  using proxy_set_result [OF assms, of M ord w]
  by (simp add: Length_is_number_def dict_get_set)

lemma mutate_number:
  assumes "Length_is_number this"
  shows "\<exists>this'. mutate M ord m this = Inr this' \<and> Length_is_number this'"
proof (cases m)
  case (Assign i v)
  then show ?thesis using proxy_set_number [OF assms, of M ord "SetIndex i v"] by auto
next
  case (Push v)
  obtain t1 where 1: "proxy_set M ord (SetIndex (length (operators this)) v) this = Inr t1"
    and n1: "Length_is_number t1"
    using proxy_set_number [OF assms] by blast
  obtain t2 where 2: "proxy_set M ord (SetLength (Suc (length (operators this)))) t1 = Inr t2"
    and n2: "Length_is_number t2"
    using proxy_set_number [OF n1] by blast
  show ?thesis using Push 1 2 n2 by (simp add: Let_def)
qed

text \<open>
  Every mutation of a constructed stream succeeds, in either order, and the stream
  keeps a \<open>Length\<close> entry.
\<close>

lemma mutate_all_number:
  assumes "Length_is_number this"
  shows "\<exists>this'. mutate_all M ord ms this = Inr this' \<and> Length_is_number this'"
  using assms
proof (induction ms arbitrary: this)
  case Nil
  then show ?case by simp
next
  case (Cons m ms)
  from mutate_number [OF Cons.prems] obtain t where
    t: "mutate M ord m this = Inr t" "Length_is_number t" by blast
  from Cons.IH [OF t(2)] t(1) show ?case by simp
qed

lemma constructed_has_Length:
  assumes "constructor M dict args = Inr this0" and "mutate_all M ord ms this0 = Inr this"
  shows "dict_get (dictionary this) ''Length'' \<noteq> None"
proof -
  have "Length_is_number this0"
    using assms(1) by (intro Length_in_sync_number constructor_Length)
  from mutate_all_number [OF this, of M ord ms] assms(2)
  have "Length_is_number this" by simp
  then show ?thesis by (rule Length_is_number_present)
qed

text \<open>An append leaves \<open>Length\<close> in sync in either order: the write of \<open>length\<close> comes last.\<close>

lemma push_Length_in_sync:
  assumes "Length_is_number this"
  shows "\<exists>this'. mutate M ord (Push v) this = Inr this' \<and> Length_in_sync M this' \<and>
           operators this' = operators this @ [Some v]"
proof -
  let ?n = "length (operators this)"
  let ?t1 = "\<lparr> dictionary =
                   dict_set (dictionary this) ''Length''
                     (PDFNumber (operatorsBytesSize M
                        (case ord of
                           CallbackThenWrite \<Rightarrow> this
                         | WriteThenCallback \<Rightarrow>
                             this\<lparr>operators := target_set (operators this) (SetIndex ?n v)\<rparr>))),
                 operators = target_set (operators this) (SetIndex ?n v) \<rparr>"
  have 1: "proxy_set M ord (SetIndex ?n v) this = Inr ?t1"
    by (rule proxy_set_result [OF assms])
  have n1: "Length_is_number ?t1" by (simp add: Length_is_number_def dict_get_set)
  have ops1: "operators ?t1 = operators this @ [Some v]" by (simp add: target_set_def)
  note 2 = proxy_set_result [OF n1, of M ord "SetLength (Suc ?n)"]
  have same: "target_set (operators ?t1) (SetLength (Suc ?n)) = operators this @ [Some v]"
    by (simp add: target_set_def)
  show ?thesis
    using 1 2 same
    by (cases ord)
      (simp_all add: Let_def Length_in_sync_def dict_get_set operatorsBytesSize_def
        target_set_def)
qed

text \<open>
  When the trap does the write before it runs the callback, every mutation leaves
  \<open>Length\<close> in sync.
\<close>

lemma mutate_all_write_first:
  assumes "Length_in_sync M this"
  shows "\<exists>this'. mutate_all M WriteThenCallback ms this = Inr this' \<and> Length_in_sync M this'"
  using assms
proof (induction ms arbitrary: this)
  case Nil
  then show ?case by simp
next
  case (Cons m ms)
  have step: "\<exists>t. mutate M WriteThenCallback m this = Inr t \<and> Length_in_sync M t"
  proof (cases m)
    case (Assign i v)
    then show ?thesis
      using proxy_set_result
        [OF Length_in_sync_number [OF Cons.prems], of M WriteThenCallback "SetIndex i v"]
      by (simp add: Length_in_sync_def dict_get_set operatorsBytesSize_def)
  next
    case (Push v)
    then show ?thesis
      using push_Length_in_sync [OF Length_in_sync_number [OF Cons.prems], of M WriteThenCallback v]
      by blast
  qed
  then obtain t where t: "mutate M WriteThenCallback m this = Inr t" "Length_in_sync M t"
    by blast
  from Cons.IH [OF t(2)] t(1) show ?case by simp
qed

lemma example_lines_constructed:
  "constructor line_methods \<lparr>entries = [], index = []\<rparr>
     [Operator ''q'', Array [Operator ''0 0 150 100 re'', Operator ''f''], Operator ''Q'']
   = Inr example_lines"
  by (simp add: constructor_def or_pred_def isInstance_PDFOperator_def isArrayOf_PDFOperator_def
      Let_def dict_set_def operatorsBytesSize_def line_methods_def example_lines_def)

lemmas proxy_eval =
  proxy_set_def set_callback_def isNumber_def set_Length_number_def target_set_def
  dict_get_def dict_set_def operatorsBytesSize_def property_of_def Let_def eval_nat_numeral

lemma example_assigned_reached:
  "mutate_all line_methods CallbackThenWrite [Assign 0 ''1 w''] example_lines
     = Inr example_assigned"
  by (simp add: example_lines_def example_assigned_def line_methods_def proxy_eval)

lemma example_mutated_reached:
  "mutate_all line_methods CallbackThenWrite [Push ''S'', Assign 6 ''h'', Assign 0 ''1 w'']
     example_lines = Inr example_mutated"
  by (simp add: example_lines_def example_mutated_def line_methods_def proxy_eval)

text \<open>
  Claim C2, evaluated at a failing input. The claim says that after construction and
  after any sequence of element assignments and appends through the proxy, \<open>Length\<close> is
  the sum of the sizes of the operators currently in the sequence. When the \<open>set\<close> trap
  runs the callback before the write, the callback of an element assignment computes
  the size of the sequence as it was. The stream built from \<open>q\<close>, \<open>[0 0 150 100 re, f]\<close>
  and \<open>Q\<close> has \<open>Length\<close> 21; after \<open>operators[0] = 1 w\<close> its operators take 23 bytes and
  \<open>Length\<close> is still 21; after \<open>operators.push(S)\<close>, \<open>operators[6] = h\<close> and
  \<open>operators[0] = 1 w\<close> they take 27 bytes and \<open>Length\<close> is 25.
\<close>

theorem Length_stale_after_assignment:
  "constructor line_methods \<lparr>entries = [], index = []\<rparr>
     [Operator ''q'', Array [Operator ''0 0 150 100 re'', Operator ''f''], Operator ''Q'']
     = Inr example_lines \<and>
   Length example_lines = Some (PDFNumber 21) \<and>
   mutate_all line_methods CallbackThenWrite [Assign 0 ''1 w''] example_lines
     = Inr example_assigned \<and>
   current_operators example_assigned = [''1 w'', ''0 0 150 100 re'', ''f'', ''Q''] \<and>
   sum_list (map (operator_bytesSize line_methods) (current_operators example_assigned)) = 23 \<and>
   Length example_assigned = Some (PDFNumber 21) \<and>
   mutate_all line_methods CallbackThenWrite [Push ''S'', Assign 6 ''h'', Assign 0 ''1 w'']
     example_lines = Inr example_mutated \<and>
   sum_list (map (operator_bytesSize line_methods) (current_operators example_mutated)) = 27 \<and>
   Length example_mutated = Some (PDFNumber 25)"
proof -
  note 1 = example_assigned_reached
  note 2 = example_mutated_reached
  have 3: "Length example_lines = Some (PDFNumber 21)"
    "Length example_assigned = Some (PDFNumber 21)"
    "Length example_mutated = Some (PDFNumber 25)"
    by (simp_all add: Length_def lookup_def dict_get_def example_lines_def example_assigned_def
        example_mutated_def)
  have 4: "current_operators example_assigned = [''1 w'', ''0 0 150 100 re'', ''f'', ''Q'']"
    "sum_list (map (operator_bytesSize line_methods) (current_operators example_assigned)) = 23"
    "sum_list (map (operator_bytesSize line_methods) (current_operators example_mutated)) = 27"
    by (simp_all add: current_operators_def example_assigned_def example_mutated_def
        line_methods_def)
  show ?thesis using example_lines_constructed 1 2 3 4 by simp
qed


subsection \<open>Writing\<close>

lemma put_bytes_Nil: "put_bytes a [] = a"
  by (simp add: put_bytes_def)

lemma view_length_put_bytes:
  "length bs \<le> view_length a \<Longrightarrow> view_length (put_bytes a bs) = view_length a - length bs"
  by (auto simp add: put_bytes_def view_length_def)

lemma put_bytes_append:
  assumes "length bs + length cs \<le> view_length a"
  shows "put_bytes (put_bytes a bs) cs = put_bytes a (bs @ cs)"
proof (cases "bs = [] \<and> cs = []")
  case True
  then show ?thesis by (simp add: put_bytes_Nil)
next
  case False
  then have pos: "0 < length bs + length cs" by auto
  have "length bs + length cs \<le> length (buffer a) - byteOffset a"
    using assms by (simp only: view_length_def)
  with pos have "byteOffset a < length (buffer a)" by arith
  with assms show ?thesis
    by (simp add: put_bytes_def view_length_def ac_simps)
qed

lemma write_chars_buffer:
  "i + length cs \<le> view_length a \<Longrightarrow>
     write_chars i cs a =
       a\<lparr>buffer := take (byteOffset a + i) (buffer a) @ map charCodeAt cs
                      @ drop (byteOffset a + i + length cs) (buffer a)\<rparr>"
proof (induction cs arbitrary: i a)
  case Nil
  then show ?case by simp
next
  case (Cons c cs)
  let ?k = "byteOffset a + i"
  let ?a = "a\<lparr>buffer := (buffer a)[?k := charCodeAt c]\<rparr>"
  have in_range: "?k < length (buffer a)" using Cons.prems by (simp add: view_length_def)
  have set: "view_set a i (charCodeAt c) = ?a"
    using Cons.prems by (simp add: view_set_def)
  have room: "Suc i + length cs \<le> view_length ?a"
    using Cons.prems by (simp add: view_length_def)
  have take: "take (Suc ?k) ((buffer a)[?k := charCodeAt c]) = take ?k (buffer a) @ [charCodeAt c]"
    using in_range by (simp add: take_Suc_conv_app_nth)
  have drop: "drop (Suc (?k + length cs)) ((buffer a)[?k := charCodeAt c])
                = drop (Suc (?k + length cs)) (buffer a)"
    by simp
  show ?case
    using Cons.IH [OF room] take drop by (simp add: set)
qed

lemma addStringToBuffer_put_bytes:
  assumes "length str \<le> view_length a"
  shows "addStringToBuffer str a = put_bytes a (map charCodeAt str)"
proof -
  have "0 + length str \<le> view_length a" using assms by simp
  from write_chars_buffer [OF this] assms show ?thesis
    by (auto simp add: addStringToBuffer_def subarray_def put_bytes_def view_length_def)
qed

lemma addStringToBuffer_writes: "writes_bytes (addStringToBuffer str) (map charCodeAt str)"
  by (simp add: writes_bytes_def addStringToBuffer_put_bytes)

lemma foldl_writes:
  assumes "\<forall>op \<in> set ops. writes_bytes (cp op) (ob op)"
    and "length (concat (map ob ops)) \<le> view_length a"
  shows "foldl (\<lambda>remBytes op. cp op remBytes) a ops = put_bytes a (concat (map ob ops))"
  using assms
proof (induction ops arbitrary: a)
  case Nil
  then show ?case by (simp add: put_bytes_Nil)
next
  case (Cons op ops)
  have room: "length (ob op) + length (concat (map ob ops)) \<le> view_length a"
    using Cons.prems(2) by simp
  then have "length (ob op) \<le> view_length a" by simp
  with Cons.prems(1) have step: "cp op a = put_bytes a (ob op)"
    by (simp add: writes_bytes_def)
  have rest: "length (concat (map ob ops)) \<le> view_length (put_bytes a (ob op))"
    using room by (simp add: view_length_put_bytes)
  have "\<forall>op \<in> set ops. writes_bytes (cp op) (ob op)" using Cons.prems(1) by simp
  from Cons.IH [OF this rest] show ?case
    by (simp add: step put_bytes_append [OF room])
qed

lemma length_concat_sizes:
  "\<forall>op \<in> set ops. length (ob op) = sz op \<Longrightarrow>
     length (concat (map ob ops)) = sum_list (map sz ops)"
  by (induction ops) simp_all

text \<open>A string that does not fit is cut: the bytes beyond the view are dropped.\<close>

lemma addStringToBuffer_example:
  "addStringToBuffer ''ab'' \<lparr>buffer = [0, 0, 0, 0], byteOffset = 1\<rparr>
     = \<lparr>buffer = [0, 97, 98, 0], byteOffset = 3\<rparr> \<and>
   addStringToBuffer ''abc'' \<lparr>buffer = [0, 0, 0, 0], byteOffset = 2\<rparr>
     = \<lparr>buffer = [0, 0, 97, 98], byteOffset = 4\<rparr>"
  by (simp add: addStringToBuffer_def subarray_def view_set_def view_length_def charCodeAt_def)

text \<open>
  Claim C1. For every content stream that has its \<open>Length\<close> entry (every constructed
  stream has, whether or not the entry is stale) and whose dictionary and operators
  each write exactly as many bytes as their own \<open>bytesSize\<close> reports, \<open>copyBytesInto\<close>
  into a view with room for \<open>bytesSize\<close> bytes succeeds and writes exactly the bytes of
  the dictionary, of the delimiter \<open>\nstream\n\<close>, of each operator currently in the
  sequence and of the delimiter \<open>\nendstream\<close>, and nothing else; the number of bytes it
  writes, which is also the advance of the view it returns, equals \<open>bytesSize\<close>.
\<close>

theorem copyBytesInto_bytesSize:
  assumes len: "dict_get (dictionary this) ''Length'' \<noteq> None"
    and dict: "writes_bytes (dictionary_copyBytesInto M (dictionary this)) dbytes"
    and dsize: "length dbytes = dictionary_bytesSize M (dictionary this)"
    and ops: "\<forall>op \<in> set (current_operators this).
                writes_bytes (operator_copyBytesInto M op) (obytes op) \<and>
                length (obytes op) = operator_bytesSize M op"
    and room: "bytesSize M this \<le> view_length buf"
  shows "copyBytesInto M this buf
           = Inr (put_bytes buf (stream_bytes dbytes obytes (current_operators this))) \<and>
         length (stream_bytes dbytes obytes (current_operators this)) = bytesSize M this \<and>
         bytes_written buf
           (put_bytes buf (stream_bytes dbytes obytes (current_operators this)))
           = bytesSize M this"
proof -
  let ?ops = "current_operators this"
  let ?obs = "concat (map obytes ?ops)"
  let ?open = "map charCodeAt ''\<newline>stream\<newline>''"
  let ?close = "map charCodeAt ''\<newline>endstream''"
  define r1 where "r1 = dictionary_copyBytesInto M (dictionary this) buf"
  define r2 where "r2 = addStringToBuffer ''\<newline>stream\<newline>'' r1"
  define r3 where "r3 = foldl (\<lambda>remBytes op. operator_copyBytesInto M op remBytes) r2 ?ops"
  define r4 where "r4 = addStringToBuffer ''\<newline>endstream'' r3"
  have osize: "length ?obs = sum_list (map (operator_bytesSize M) ?ops)"
    using ops by (simp add: length_concat_sizes)
  have size: "length (stream_bytes dbytes obytes ?ops) = bytesSize M this"
    by (simp add: stream_bytes_def bytesSize_def operatorsBytesSize_sum dsize osize)
  have total: "length dbytes + (length ?open + (length ?obs + length ?close)) \<le> view_length buf"
    using room size by (simp add: stream_bytes_def)
  have 1: "r1 = put_bytes buf dbytes"
    using dict total by (simp add: r1_def writes_bytes_def)
  have room1: "length ?open + (length ?obs + length ?close) \<le> view_length r1"
    using total by (simp add: 1 view_length_put_bytes)
  have 2: "r2 = put_bytes buf (dbytes @ ?open)"
  proof -
    have "length ''\<newline>stream\<newline>'' \<le> view_length r1" using room1 by simp
    then have "r2 = put_bytes r1 ?open" by (simp add: r2_def addStringToBuffer_put_bytes)
    moreover have "length dbytes + length ?open \<le> view_length buf" using total by simp
    ultimately show ?thesis by (simp only: 1 put_bytes_append)
  qed
  have room2: "length ?obs + length ?close \<le> view_length r2"
    using total by (simp add: 2 view_length_put_bytes)
  have 3: "r3 = put_bytes buf (dbytes @ ?open @ ?obs)"
  proof -
    have w: "\<forall>op \<in> set ?ops. writes_bytes (operator_copyBytesInto M op) (obytes op)"
      using ops by simp
    have "length ?obs \<le> view_length r2" using room2 by simp
    from foldl_writes [OF w this] have "r3 = put_bytes r2 ?obs" by (simp add: r3_def)
    moreover have "length (dbytes @ ?open) + length ?obs \<le> view_length buf"
      using total by simp
    ultimately show ?thesis by (simp only: 2 put_bytes_append append_assoc)
  qed
  have room3: "length ?close \<le> view_length r3"
    using total by (simp add: 3 view_length_put_bytes)
  have 4: "r4 = put_bytes buf (stream_bytes dbytes obytes ?ops)"
  proof -
    have "length ''\<newline>endstream'' \<le> view_length r3" using room3 by simp
    then have "r4 = put_bytes r3 ?close" by (simp add: r4_def addStringToBuffer_put_bytes)
    moreover have "length (dbytes @ ?open @ ?obs) + length ?close \<le> view_length buf"
      using total by simp
    ultimately show ?thesis by (simp only: 3 put_bytes_append append_assoc stream_bytes_def)
  qed
  have "copyBytesInto M this buf = Inr r4"
    using len by (auto simp add: copyBytesInto_def validateDictionary_def Let_def
        filter_Boolean_current r1_def r2_def r3_def r4_def split: option.splits)
  moreover have "bytes_written buf (put_bytes buf (stream_bytes dbytes obytes ?ops))
                   = bytesSize M this"
    by (simp add: bytes_written_def put_bytes_def size)
  ultimately show ?thesis using 4 size by simp
qed


theorem copyBytesInto_bytesSize_witness:
  "mutate_all line_methods CallbackThenWrite [Assign 0 ''1 w''] example_lines
     = Inr example_assigned \<and>
   bytesSize line_methods example_assigned = 46 \<and>
   copyBytesInto line_methods example_assigned (new_Uint8Array 46) =
     Inr \<lparr> buffer =
             map charCodeAt
               (''<</>>'' @ ''\<newline>stream\<newline>''
                  @ ''1 w\<newline>'' @ ''0 0 150 100 re\<newline>'' @ ''f\<newline>'' @ ''Q\<newline>''
                  @ ''\<newline>endstream''),
           byteOffset = 46 \<rparr> \<and>
   copyBytesInto line_methods example_assigned \<lparr>buffer = replicate 50 7, byteOffset = 2\<rparr> =
     Inr \<lparr> buffer =
             [7, 7] @
             map charCodeAt
               (''<</>>'' @ ''\<newline>stream\<newline>''
                  @ ''1 w\<newline>'' @ ''0 0 150 100 re\<newline>'' @ ''f\<newline>'' @ ''Q\<newline>''
                  @ ''\<newline>endstream'') @ [7, 7],
           byteOffset = 48 \<rparr>"
proof -
  let ?db = "map charCodeAt ''<</>>''"
  let ?ob = "\<lambda>op. map charCodeAt (op @ ''\<newline>'')"
  have len: "dict_get (dictionary example_assigned) ''Length'' \<noteq> None"
    by (simp add: dict_get_def example_assigned_def)
  have d: "writes_bytes (dictionary_copyBytesInto line_methods (dictionary example_assigned)) ?db"
  proof -
    have "dictionary_copyBytesInto line_methods (dictionary example_assigned)
            = addStringToBuffer ''<</>>''"
      by (simp add: line_methods_def example_assigned_def)
    then show ?thesis by (simp only: addStringToBuffer_writes)
  qed
  have ds: "length ?db = dictionary_bytesSize line_methods (dictionary example_assigned)"
    by (simp add: line_methods_def example_assigned_def)
  have o: "\<forall>op \<in> set (current_operators example_assigned).
             writes_bytes (operator_copyBytesInto line_methods op) (?ob op) \<and>
             length (?ob op) = operator_bytesSize line_methods op"
  proof (intro ballI conjI)
    fix op :: string
    have "operator_copyBytesInto line_methods op = addStringToBuffer (op @ ''\<newline>'')"
      by (simp add: line_methods_def)
    then show "writes_bytes (operator_copyBytesInto line_methods op) (?ob op)"
      by (simp only: addStringToBuffer_writes)
    show "length (?ob op) = operator_bytesSize line_methods op"
      by (simp add: line_methods_def)
  qed
  have s: "bytesSize line_methods example_assigned = 46"
    by (simp add: bytesSize_def operatorsBytesSize_def line_methods_def example_assigned_def)
  have r1: "bytesSize line_methods example_assigned \<le> view_length (new_Uint8Array 46)"
    by (simp add: s new_Uint8Array_def view_length_def)
  have r2: "bytesSize line_methods example_assigned
              \<le> view_length \<lparr>buffer = replicate 50 7, byteOffset = 2\<rparr>"
    by (simp add: s view_length_def)
  define bs where "bs = stream_bytes ?db ?ob (current_operators example_assigned)"
  note t1 = copyBytesInto_bytesSize [OF len d ds o r1, folded bs_def]
  note t2 = copyBytesInto_bytesSize [OF len d ds o r2, folded bs_def]
  have l: "length bs = 46" using t1 s by simp
  have p1: "put_bytes (new_Uint8Array 46) bs = \<lparr>buffer = bs, byteOffset = 46\<rparr>"
    using l by (simp add: put_bytes_def new_Uint8Array_def)
  have p2: "put_bytes \<lparr>buffer = replicate 50 7, byteOffset = 2\<rparr> bs
              = \<lparr>buffer = [7, 7] @ bs @ [7, 7], byteOffset = 48\<rparr>"
    using l by (simp add: put_bytes_def numeral_2_eq_2)
  have bytes: "bs =
      map charCodeAt
               (''<</>>'' @ ''\<newline>stream\<newline>''
                  @ ''1 w\<newline>'' @ ''0 0 150 100 re\<newline>'' @ ''f\<newline>'' @ ''Q\<newline>''
                  @ ''\<newline>endstream'')"
    by (simp add: bs_def stream_bytes_def current_operators_def example_assigned_def)
  from t1 t2 have
    "copyBytesInto line_methods example_assigned (new_Uint8Array 46)
       = Inr \<lparr>buffer = bs, byteOffset = 46\<rparr>"
    "copyBytesInto line_methods example_assigned \<lparr>buffer = replicate 50 7, byteOffset = 2\<rparr>
       = Inr \<lparr>buffer = [7, 7] @ bs @ [7, 7], byteOffset = 48\<rparr>"
    by (simp_all only: p1 p2)
  with example_assigned_reached s show ?thesis by (simp only: bytes)
qed


end
